theory Spec2Isabelle
  imports Main "HOL-Library.Word"
begin

section \<open>Machine types\<close>

text \<open>
  The JNI types: \<open>jlong\<close> is a 64-bit and \<open>jint\<close> a 32-bit two's complement
  integer, \<open>jbyte\<close> one byte. Comparisons on them are the signed ones (\<open><s\<close>,
  \<open>\<le>s\<close>); addition wraps. A Java reference that may be \<open>NULL\<close> is an
  \<open>option\<close>.
\<close>

type_synonym jlong = "64 word"
type_synonym jint = "32 word"
type_synonym jbyte = "8 word"

section \<open>j2534\_jni.h: status codes and enumerations\<close>

definition STATUS_NOERROR :: jlong where "STATUS_NOERROR = 0x00000000"
definition ERR_NOT_SUPPORTED :: jlong where "ERR_NOT_SUPPORTED = 0x00000001"
definition ERR_INVALID_PROTOCOL_ID :: jlong where "ERR_INVALID_PROTOCOL_ID = 0x00000003"
definition ERR_NULL_PARAMETER :: jlong where "ERR_NULL_PARAMETER = 0x00000004"
definition ERR_INVALID_IOCTL_VALUE :: jlong where "ERR_INVALID_IOCTL_VALUE = 0x00000005"
definition ERR_INVALID_MSG :: jlong where "ERR_INVALID_MSG = 0x0000000C"
definition ERR_INVALID_IOCTL_ID :: jlong where "ERR_INVALID_IOCTL_ID = 0x00000010"
definition ERR_PIN_INVALID :: jlong where "ERR_PIN_INVALID = 0x00000014"

definition PASS_FILTER :: jlong where "PASS_FILTER = 1"
definition BLOCK_FILTER :: jlong where "BLOCK_FILTER = 2"
definition FLOW_CONTROL_FILTER :: jlong where "FLOW_CONTROL_FILTER = 3"

section \<open>j2534\_jni.cpp: the global state\<close>

text \<open>
  \<open>J2534DeviceStruct\<close>: the handle and five bounded character buffers, read as
  the C strings they hold.
\<close>

record J2534DeviceStruct =
  handle :: jlong
  name :: string
  vendor :: string
  firmware_version :: string
  dll_version :: string
  api_version :: string

text \<open>
  The Java object \<open>com.spacetec.j2534.J2534Message\<close> as this file reads it
  (fields \<open>protocolID\<close>, \<open>rxStatus\<close>, \<open>txFlags\<close>, \<open>timestamp\<close> of
  type long, \<open>data\<close> a byte array that may be null, \<open>extraDataIndex\<close> an
  int), and the C structure \<open>J2534MessageStruct\<close> it is copied into.
\<close>

record J2534Message =
  jm_protocolID :: jlong
  jm_rxStatus :: jlong
  jm_txFlags :: jlong
  jm_timestamp :: jlong
  jm_data :: "jbyte list option"
  jm_extraDataIndex :: jint

record J2534MessageStruct =
  protocolID :: jlong
  rxStatus :: jlong
  txFlags :: jlong
  timestamp :: jlong
  data :: "jbyte list option"
  extraDataIndex :: jint

text \<open>
  The file's globals: \<open>g_devices[32]\<close> (always 32 slots, of which the first
  \<open>g_device_count\<close> are in use), \<open>g_device_count\<close> (a counter that only
  ever holds 0..32) and the buffer \<open>g_last_error[512]\<close>. The mutex orders the
  calls; each call is one atomic step on this record.
\<close>

record jni_state =
  g_devices :: "J2534DeviceStruct list"
  g_device_count :: nat
  g_last_error :: string

definition zero_device :: J2534DeviceStruct where
  "zero_device = \<lparr>handle = 0, name = [], vendor = [], firmware_version = [],
     dll_version = [], api_version = []\<rparr>"

text \<open>Static storage is zero-initialised: the state when the library is loaded.\<close>

definition process_start :: jni_state where
  "process_start = \<lparr>g_devices = replicate 32 zero_device, g_device_count = 0,
     g_last_error = []\<rparr>"

text \<open>\<open>getJavaMessage\<close>: every field of the Java object is read into the structure.\<close>

definition getJavaMessage :: "J2534Message \<Rightarrow> J2534MessageStruct" where
  "getJavaMessage javaMsg =
     \<lparr>protocolID = jm_protocolID javaMsg,
      rxStatus = jm_rxStatus javaMsg,
      txFlags = jm_txFlags javaMsg,
      timestamp = jm_timestamp javaMsg,
      data = (case jm_data javaMsg of Some dataObj \<Rightarrow> Some dataObj | None \<Rightarrow> None),
      extraDataIndex = jm_extraDataIndex javaMsg\<rparr>"

text \<open>
  \<open>setLastError\<close>: \<open>strncpy\<close> of at most 511 characters, then the
  terminating zero.
\<close>

definition setLastError :: "string \<Rightarrow> jni_state \<Rightarrow> jni_state" where
  "setLastError error s = s\<lparr>g_last_error := take (512 - 1) error\<rparr>"

section \<open>j2534\_jni.cpp: the entry points\<close>

definition J2534JniWrapper_initialize :: "jni_state \<Rightarrow> bool \<times> jni_state" where
  "J2534JniWrapper_initialize s =
     (True, s\<lparr>g_device_count := 0, g_devices := replicate 32 zero_device,
               g_last_error := []\<rparr>)"

definition J2534JniWrapper_cleanup :: "jni_state \<Rightarrow> jni_state" where
  "J2534JniWrapper_cleanup s =
     s\<lparr>g_devices := replicate 32 zero_device, g_device_count := 0,
       g_last_error := []\<rparr>"

text \<open>
  \<open>snprintf(buf, size, ...)\<close> keeps at most \<open>size - 1\<close> characters; \<open>%d\<close>
  prints a decimal.
\<close>

definition snprintf :: "nat \<Rightarrow> string \<Rightarrow> string" where
  "snprintf n str = take (n - 1) str"

definition digit_char :: "nat \<Rightarrow> char" where
  "digit_char d =
     (if d = 0 then CHR ''0'' else if d = 1 then CHR ''1'' else if d = 2 then CHR ''2''
      else if d = 3 then CHR ''3'' else if d = 4 then CHR ''4'' else if d = 5 then CHR ''5''
      else if d = 6 then CHR ''6'' else if d = 7 then CHR ''7'' else if d = 8 then CHR ''8''
      else CHR ''9'')"

fun decimal :: "nat \<Rightarrow> string" where
  "decimal n = (if n < 10 then [digit_char n] else decimal (n div 10) @ [digit_char (n mod 10)])"

text \<open>The fields the scan writes into the slot at loop index \<open>i\<close>.\<close>

definition simulated_device :: "nat \<Rightarrow> J2534DeviceStruct" where
  "simulated_device i =
     \<lparr>handle = 1000 + of_nat i,
      name = snprintf 256 (''J2534_Device_'' @ decimal i),
      vendor = snprintf 128 (''Vendor_'' @ decimal i),
      firmware_version = snprintf 64 (''1.0.'' @ decimal i),
      dll_version = snprintf 64 ''04.04'',
      api_version = snprintf 64 ''04.04''\<rparr>"

text \<open>
  The loop of \<open>scanForDevices\<close>, \<open>for (int i = 0; i < 2; i++)\<close>: when a slot
  is free the device is written at index \<open>g_device_count\<close>, a Java object with the
  same fields is appended to the returned list, and the counter is incremented;
  when none is free the iteration does nothing.
\<close>

function scan_loop ::
  "nat \<Rightarrow> jni_state \<Rightarrow> J2534DeviceStruct list \<Rightarrow> J2534DeviceStruct list \<times> jni_state" where
  "scan_loop i s deviceList =
     (if i < 2 then
        (if g_device_count s < 32 then
           scan_loop (i + 1)
             (s\<lparr>g_devices := (g_devices s)[g_device_count s := simulated_device i],
                g_device_count := g_device_count s + 1\<rparr>)
             (deviceList @ [simulated_device i])
         else scan_loop (i + 1) s deviceList)
      else (deviceList, s))"
  by pat_completeness auto
termination
  by (relation "measure (\<lambda>(i, s, deviceList). 2 - i)") auto

definition J2534JniWrapper_scanForDevices ::
  "jni_state \<Rightarrow> J2534DeviceStruct list \<times> jni_state" where
  "J2534JniWrapper_scanForDevices s = scan_loop 0 s []"

definition J2534JniWrapper_connect ::
  "jni_state \<Rightarrow> jlong \<Rightarrow> jlong \<Rightarrow> jlong \<Rightarrow> jlong \<Rightarrow> jlong \<times> jni_state" where
  "J2534JniWrapper_connect s deviceHandle protocol flags baudrate =
     (if protocol <s 1 \<or> 10 <s protocol
      then (ERR_INVALID_PROTOCOL_ID, setLastError ''Invalid protocol ID'' s)
      else (deviceHandle + 10000, s))"

definition J2534JniWrapper_disconnect :: "jni_state \<Rightarrow> jlong \<Rightarrow> jlong \<times> jni_state" where
  "J2534JniWrapper_disconnect s h = (STATUS_NOERROR, s)"

text \<open>
  \<open>GetObjectArrayElement\<close>: the element, which may itself be null. For an
  index outside the array the JVM raises
  \<open>ArrayIndexOutOfBoundsException\<close> and the C code receives null; the code
  never checks for the exception, which stays pending and is thrown when the
  native method returns to Java.
\<close>

datatype java_exception = ArrayIndexOutOfBoundsException

definition GetObjectArrayElement :: "'a option list \<Rightarrow> nat \<Rightarrow> java_exception + 'a option" where
  "GetObjectArrayElement arr i =
     (if i < length arr then Inr (arr ! i) else Inl ArrayIndexOutOfBoundsException)"

text \<open>
  The validation loop of \<open>writeMessages\<close>,
  \<open>for (int i = 0; i < numMessages; i++)\<close>, with \<open>numMessages\<close> a signed
  32-bit integer: null elements are skipped, the first message whose protocol id
  is outside 1..10 ends the call. The loop yields the status and whether an
  exception is pending.
\<close>

function write_loop ::
  "nat \<Rightarrow> jint \<Rightarrow> J2534Message option list \<Rightarrow> bool \<Rightarrow> jni_state
     \<Rightarrow> (jlong \<times> bool) \<times> jni_state" where
  "write_loop i numMessages messages pending s =
     (if int i < sint numMessages then
        (case GetObjectArrayElement messages i of
           Inl e \<Rightarrow> write_loop (i + 1) numMessages messages True s
         | Inr None \<Rightarrow> write_loop (i + 1) numMessages messages pending s
         | Inr (Some msgObj) \<Rightarrow>
             (let cMsg = getJavaMessage msgObj in
              if protocolID cMsg <s 1 \<or> 10 <s protocolID cMsg
              then ((ERR_INVALID_MSG, pending),
                    setLastError ''Invalid protocol ID in message'' s)
              else write_loop (i + 1) numMessages messages pending s))
      else ((STATUS_NOERROR, pending), s))"
  by pat_completeness auto
termination
  by (relation "measure (\<lambda>(i, numMessages, messages, pending, s). nat (sint numMessages) - i)")
     auto

text \<open>
  What the Java caller of \<open>writeMessages\<close> observes: the returned status, or
  the exception if one is pending.
\<close>

definition J2534JniWrapper_writeMessages ::
  "jni_state \<Rightarrow> jlong \<Rightarrow> J2534Message option list option \<Rightarrow> jint \<Rightarrow> jlong
     \<Rightarrow> (java_exception + jlong) \<times> jni_state" where
  "J2534JniWrapper_writeMessages s h messages numMessages timeout =
     (case messages of
        None \<Rightarrow> (Inr ERR_NULL_PARAMETER, setLastError ''Messages array is null'' s)
      | Some msgs \<Rightarrow>
          (case write_loop 0 numMessages msgs False s of
             ((status, pending), s') \<Rightarrow>
               (if pending then Inl ArrayIndexOutOfBoundsException else Inr status, s')))"

definition J2534JniWrapper_startPeriodicMessage ::
  "jni_state \<Rightarrow> jlong \<Rightarrow> J2534Message option \<Rightarrow> jlong \<Rightarrow> jlong \<Rightarrow> jlong \<times> jni_state" where
  "J2534JniWrapper_startPeriodicMessage s h message msgId period =
     (if message = None
      then (ERR_NULL_PARAMETER, setLastError ''Message is null'' s)
      else (STATUS_NOERROR, s))"

definition J2534JniWrapper_stopPeriodicMessage ::
  "jni_state \<Rightarrow> jlong \<Rightarrow> jlong \<Rightarrow> jlong \<times> jni_state" where
  "J2534JniWrapper_stopPeriodicMessage s h msgId = (STATUS_NOERROR, s)"

definition J2534JniWrapper_startMessageFilter ::
  "jni_state \<Rightarrow> jlong \<Rightarrow> jlong \<Rightarrow> J2534Message option \<Rightarrow> J2534Message option
     \<Rightarrow> J2534Message option \<Rightarrow> jlong \<times> jni_state" where
  "J2534JniWrapper_startMessageFilter s h filterType maskObj patternObj flowControl =
     (if maskObj = None \<or> patternObj = None
      then (ERR_NULL_PARAMETER, setLastError ''Mask or pattern is null'' s)
      else if filterType \<noteq> PASS_FILTER \<and> filterType \<noteq> BLOCK_FILTER
              \<and> filterType \<noteq> FLOW_CONTROL_FILTER
      then (ERR_INVALID_IOCTL_VALUE, setLastError ''Invalid filter type'' s)
      else (1000 + h, s))"

definition J2534JniWrapper_stopMessageFilter ::
  "jni_state \<Rightarrow> jlong \<Rightarrow> jlong \<Rightarrow> jlong \<times> jni_state" where
  "J2534JniWrapper_stopMessageFilter s h filterId = (STATUS_NOERROR, s)"

text \<open>
  \<open>setProgrammingVoltage\<close>: the pin is checked against 1..16; an unusual
  voltage is only logged.
\<close>

definition J2534JniWrapper_setProgrammingVoltage ::
  "jni_state \<Rightarrow> jlong \<Rightarrow> jlong \<Rightarrow> jlong \<Rightarrow> jlong \<times> jni_state" where
  "J2534JniWrapper_setProgrammingVoltage s h pinNumber voltage =
     (if pinNumber <s 1 \<or> 16 <s pinNumber
      then (ERR_PIN_INVALID, setLastError ''Invalid pin number'' s)
      else (STATUS_NOERROR, s))"

text \<open>
  \<open>ioctl\<close>: the \<open>switch\<close> has four cases that only \<open>break\<close> and a
  \<open>default\<close> that reports the error.
\<close>

definition J2534JniWrapper_ioctl ::
  "jni_state \<Rightarrow> jlong \<Rightarrow> jlong \<Rightarrow> jlong \<Rightarrow> jlong \<Rightarrow> jlong \<times> jni_state" where
  "J2534JniWrapper_ioctl s h ioControlCode input output =
     (if ioControlCode = 0x01 then (STATUS_NOERROR, s)
      else if ioControlCode = 0x02 then (STATUS_NOERROR, s)
      else if ioControlCode = 0x03 then (STATUS_NOERROR, s)
      else if ioControlCode = 0x07 then (STATUS_NOERROR, s)
      else (ERR_INVALID_IOCTL_ID, setLastError ''Unsupported IOCTL operation'' s))"

section \<open>j2534\_jni.cpp: sessions\<close>

text \<open>The handles of the devices in use, in slot order.\<close>

definition active_handles :: "jni_state \<Rightarrow> jlong list" where
  "active_handles s = map handle (take (g_device_count s) (g_devices s))"

text \<open>
  The states a process can be in: it starts with zeroed globals and then calls
  entry points in any order with any arguments. Of the entry points not
  modelled above, \<open>readVersion\<close> and \<open>getLastError\<close> write no global, and
  \<open>readMessages\<close> writes one only through \<open>setLastError\<close> (for a null
  array), which the last rule covers.
\<close>

inductive reachable :: "jni_state \<Rightarrow> bool" where
  start: "reachable process_start"
| initialize: "reachable s \<Longrightarrow> reachable (snd (J2534JniWrapper_initialize s))"
| scanForDevices: "reachable s \<Longrightarrow> reachable (snd (J2534JniWrapper_scanForDevices s))"
| cleanup: "reachable s \<Longrightarrow> reachable (J2534JniWrapper_cleanup s)"
| connect: "reachable s \<Longrightarrow> reachable (snd (J2534JniWrapper_connect s d p f b))"
| disconnect: "reachable s \<Longrightarrow> reachable (snd (J2534JniWrapper_disconnect s h))"
| writeMessages: "reachable s \<Longrightarrow> reachable (snd (J2534JniWrapper_writeMessages s h ms n t))"
| startMessageFilter:
    "reachable s \<Longrightarrow> reachable (snd (J2534JniWrapper_startMessageFilter s h ft m p fc))"
| stopMessageFilter:
    "reachable s \<Longrightarrow> reachable (snd (J2534JniWrapper_stopMessageFilter s h fid))"
| ioctl: "reachable s \<Longrightarrow> reachable (snd (J2534JniWrapper_ioctl s h c i out))"
| startPeriodicMessage:
    "reachable s \<Longrightarrow> reachable (snd (J2534JniWrapper_startPeriodicMessage s h pm pid per))"
| stopPeriodicMessage:
    "reachable s \<Longrightarrow> reachable (snd (J2534JniWrapper_stopPeriodicMessage s h pid))"
| setProgrammingVoltage:
    "reachable s \<Longrightarrow> reachable (snd (J2534JniWrapper_setProgrammingVoltage s h pin v))"
| setLastError: "reachable s \<Longrightarrow> reachable (setLastError e s)"

text \<open>What every reachable state satisfies (shown below).\<close>

definition registry_inv :: "jni_state \<Rightarrow> bool" where
  "registry_inv s \<longleftrightarrow>
     g_device_count s \<le> 32 \<and> length (g_devices s) = 32 \<and>
     set (active_handles s) \<subseteq> {1000, 1001}"

text \<open>One successful iteration of the scan loop.\<close>

definition store_device :: "nat \<Rightarrow> jni_state \<Rightarrow> jni_state" where
  "store_device i s =
     s\<lparr>g_devices := (g_devices s)[g_device_count s := simulated_device i],
       g_device_count := Suc (g_device_count s)\<rparr>"

text \<open>The test the write loop applies to an array element.\<close>

definition invalid_message :: "J2534Message option \<Rightarrow> bool" where
  "invalid_message m =
     (case m of None \<Rightarrow> False
      | Some msgObj \<Rightarrow> jm_protocolID msgObj <s 1 \<or> 10 <s jm_protocolID msgObj)"

text \<open>Concrete sessions and messages used in the examples.\<close>

definition scan_state :: "jni_state \<Rightarrow> jni_state" where
  "scan_state s = snd (J2534JniWrapper_scanForDevices s)"

definition scanned_once :: jni_state where
  "scanned_once = scan_state process_start"

definition full_registry :: jni_state where
  "full_registry = (scan_state ^^ 16) process_start"

definition example_message :: J2534Message where
  "example_message =
     \<lparr>jm_protocolID = 6, jm_rxStatus = 0, jm_txFlags = 0, jm_timestamp = 0,
      jm_data = Some [0x02, 0x10, 0x03], jm_extraDataIndex = 0\<rparr>"

definition invalid_example_message :: J2534Message where
  "invalid_example_message = example_message\<lparr>jm_protocolID := 99\<rparr>"

section \<open>j2534\_native.h: the native structures\<close>

text \<open>
  \<open>j2534_native.cpp\<close> is written against the Windows API (\<open>windows.h\<close>,
  \<open>LoadLibraryA\<close>, \<open>GetProcAddress\<close>, \<open>FreeLibrary\<close>), where
  \<open>unsigned long\<close> has 32 bits.
\<close>

type_synonym ulong = "32 word"

definition sizeof_Data :: nat where "sizeof_Data = 4128"

record PASSTHRU_MSG =
  ProtocolID :: ulong
  RxStatus :: ulong
  TxFlags :: ulong
  Timestamp :: ulong
  DataSize :: ulong
  ExtraDataIndex :: ulong
  Data :: "jbyte list"

text \<open>
  The Java message object as \<open>convert_java_message_to_native\<close> reads it: int
  fields \<open>protocolId\<close>, \<open>rxStatus\<close>, \<open>txFlags\<close>, \<open>dataSize\<close>,
  \<open>extraDataIndex\<close>, the long field \<open>timestamp\<close> and the byte array
  \<open>data\<close>, which may be null.
\<close>

record java_message =
  msg_protocolId :: jint
  msg_rxStatus :: jint
  msg_txFlags :: jint
  msg_timestamp :: jlong
  msg_dataSize :: jint
  msg_extraDataIndex :: jint
  msg_data :: "jbyte list option"

section \<open>j2534\_native.cpp: message conversion\<close>

text \<open>\<open>memcpy(dst, src, n)\<close> for \<open>n\<close> within both buffers.\<close>

definition memcpy :: "jbyte list \<Rightarrow> jbyte list \<Rightarrow> nat \<Rightarrow> jbyte list" where
  "memcpy dst src n = take n src @ drop n dst"

definition convert_java_message_to_native ::
  "java_message option \<Rightarrow> PASSTHRU_MSG option \<Rightarrow> PASSTHRU_MSG option" where
  "convert_java_message_to_native java_msg native_msg =
     (case java_msg of
        None \<Rightarrow> native_msg
      | Some j \<Rightarrow>
          (case native_msg of
             None \<Rightarrow> native_msg
           | Some n \<Rightarrow>
               (let n1 = n\<lparr>ProtocolID := ucast (msg_protocolId j),
                            RxStatus := ucast (msg_rxStatus j),
                            TxFlags := ucast (msg_txFlags j),
                            Timestamp := ucast (msg_timestamp j),
                            DataSize := ucast (msg_dataSize j),
                            ExtraDataIndex := ucast (msg_extraDataIndex j)\<rparr>
                in case msg_data j of
                     None \<Rightarrow> Some n1
                   | Some data_bytes \<Rightarrow>
                       (let data_length = length data_bytes;
                            copy_length =
                              (if data_length > sizeof_Data then sizeof_Data else data_length)
                        in Some (n1\<lparr>Data := memcpy (Data n1) data_bytes copy_length\<rparr>)))))"

text \<open>
  \<open>convert_native_message_to_java\<close> reads nothing but the native message: it
  sizes a new byte array by \<open>DataSize\<close>, copies that many bytes from
  \<open>Data\<close>, casts the six numeric fields to the Java widths and hands the seven
  values to \<open>NewObject\<close>, with a constructor looked up by the descriptor
  \<open>(IIJII[B)V\<close>, which has six parameters. Which of the seven values that
  constructor receives depends on how the JVM reads the variadic argument list
  against the shorter descriptor. This is not modelled, and no statement below
  speaks about the constructed object.
\<close>

section \<open>j2534\_native.cpp: loading the driver\<close>

text \<open>
  The part of the operating system the loader talks to: which module
  \<open>LoadLibraryA\<close> finds at a path, which address \<open>GetProcAddress\<close> gives
  for a module and a symbol, the outstanding module references (one entry per
  \<open>LoadLibraryA\<close> not yet matched by \<open>FreeLibrary\<close>), the live heap blocks,
  and whether \<open>malloc\<close> has memory to give. A null pointer is \<open>None\<close>.
\<close>

record os_state =
  library_at :: "string \<Rightarrow> nat option"
  symbol_of :: "nat \<Rightarrow> string \<Rightarrow> nat option"
  loaded_modules :: "nat list"
  heap_blocks :: "nat list"
  malloc_succeeds :: bool

definition LoadLibraryA :: "os_state \<Rightarrow> string \<Rightarrow> nat option \<times> os_state" where
  "LoadLibraryA w path =
     (case library_at w path of
        None \<Rightarrow> (None, w)
      | Some hLib \<Rightarrow> (Some hLib, w\<lparr>loaded_modules := hLib # loaded_modules w\<rparr>))"

definition FreeLibrary :: "os_state \<Rightarrow> nat \<Rightarrow> os_state" where
  "FreeLibrary w hLib = w\<lparr>loaded_modules := remove1 hLib (loaded_modules w)\<rparr>"

definition GetProcAddress :: "os_state \<Rightarrow> nat \<Rightarrow> string \<Rightarrow> nat option" where
  "GetProcAddress w hLib symbol = symbol_of w hLib symbol"

definition malloc :: "os_state \<Rightarrow> nat option \<times> os_state" where
  "malloc w =
     (if malloc_succeeds w
      then (let p = Suc (sum_list (heap_blocks w))
            in (Some p, w\<lparr>heap_blocks := p # heap_blocks w\<rparr>))
      else (None, w))"

definition free :: "os_state \<Rightarrow> nat \<Rightarrow> os_state" where
  "free w p = w\<lparr>heap_blocks := remove1 p (heap_blocks w)\<rparr>"

record J2534_LIBRARY =
  hLibrary :: "nat option"
  PassThruOpen :: "nat option"
  PassThruClose :: "nat option"
  PassThruConnect :: "nat option"
  PassThruDisconnect :: "nat option"
  PassThruReadMsgs :: "nat option"
  PassThruWriteMsgs :: "nat option"
  PassThruStartMsgFilter :: "nat option"
  PassThruStopMsgFilter :: "nat option"
  PassThruSetProgrammingVoltage :: "nat option"
  PassThruReadVersion :: "nat option"
  PassThruGetLastError :: "nat option"
  PassThruIoctl :: "nat option"

text \<open>
  \<open>load_j2534_library\<close> returns the address of the allocated structure
  together with its contents, or null.
\<close>

definition load_j2534_library ::
  "os_state \<Rightarrow> string \<Rightarrow> (nat \<times> J2534_LIBRARY) option \<times> os_state" where
  "load_j2534_library w library_path =
     (case LoadLibraryA w library_path of
        (None, w1) \<Rightarrow> (None, w1)
      | (Some hLib, w1) \<Rightarrow>
          (case malloc w1 of
             (None, w2) \<Rightarrow> (None, FreeLibrary w2 hLib)
           | (Some p, w2) \<Rightarrow>
               (let lib = \<lparr>hLibrary = Some hLib,
                      PassThruOpen = GetProcAddress w2 hLib ''PassThruOpen'',
                      PassThruClose = GetProcAddress w2 hLib ''PassThruClose'',
                      PassThruConnect = GetProcAddress w2 hLib ''PassThruConnect'',
                      PassThruDisconnect = GetProcAddress w2 hLib ''PassThruDisconnect'',
                      PassThruReadMsgs = GetProcAddress w2 hLib ''PassThruReadMsgs'',
                      PassThruWriteMsgs = GetProcAddress w2 hLib ''PassThruWriteMsgs'',
                      PassThruStartMsgFilter =
                        GetProcAddress w2 hLib ''PassThruStartMsgFilter'',
                      PassThruStopMsgFilter = GetProcAddress w2 hLib ''PassThruStopMsgFilter'',
                      PassThruSetProgrammingVoltage =
                        GetProcAddress w2 hLib ''PassThruSetProgrammingVoltage'',
                      PassThruReadVersion = GetProcAddress w2 hLib ''PassThruReadVersion'',
                      PassThruGetLastError = GetProcAddress w2 hLib ''PassThruGetLastError'',
                      PassThruIoctl = GetProcAddress w2 hLib ''PassThruIoctl''\<rparr>
                in if PassThruOpen lib = None \<or> PassThruClose lib = None \<or>
                      PassThruConnect lib = None \<or> PassThruDisconnect lib = None
                   then (None, free (FreeLibrary w2 hLib) p)
                   else (Some (p, lib), w2))))"

definition unload_j2534_library :: "os_state \<Rightarrow> (nat \<times> J2534_LIBRARY) option \<Rightarrow> os_state" where
  "unload_j2534_library w lib =
     (case lib of
        None \<Rightarrow> w
      | Some (p, l) \<Rightarrow>
          free (case hLibrary l of None \<Rightarrow> w | Some hLib \<Rightarrow> FreeLibrary w hLib) p)"

text \<open>Concrete messages and a concrete operating-system state used in the examples.\<close>

definition empty_message :: PASSTHRU_MSG where
  "empty_message = \<lparr>ProtocolID = 0, RxStatus = 0, TxFlags = 0, Timestamp = 0, DataSize = 0,
     ExtraDataIndex = 0, Data = replicate 4128 0\<rparr>"

definition diagnostic_request :: java_message where
  "diagnostic_request = \<lparr>msg_protocolId = 6, msg_rxStatus = 0, msg_txFlags = 0x40,
     msg_timestamp = 1000, msg_dataSize = 3, msg_extraDataIndex = 0,
     msg_data = Some [0x02, 0x10, 0x03]\<rparr>"

definition mandatory_only_exports :: "string \<Rightarrow> nat option" where
  "mandatory_only_exports =
     map_of [(''PassThruOpen'', 4096), (''PassThruClose'', 4112), (''PassThruConnect'', 4128),
             (''PassThruDisconnect'', 4144)]"

definition no_disconnect_exports :: "string \<Rightarrow> nat option" where
  "no_disconnect_exports =
     map_of [(''PassThruOpen'', 8192), (''PassThruClose'', 8208), (''PassThruConnect'', 8224),
             (''PassThruReadMsgs'', 8240), (''PassThruWriteMsgs'', 8256)]"

definition example_os :: os_state where
  "example_os =
     \<lparr>library_at = map_of [(''vendor.dll'', 7), (''broken.dll'', 8)],
      symbol_of = (\<lambda>hLib. if hLib = 7 then mandatory_only_exports
                          else if hLib = 8 then no_disconnect_exports else (\<lambda>symbol. None)),
      loaded_modules = [3],
      heap_blocks = [16, 32],
      malloc_succeeds = True\<rparr>"

definition late_request :: java_message where
  "late_request = diagnostic_request\<lparr>msg_timestamp := 0x100000000\<rparr>"

definition epoch_request :: java_message where
  "epoch_request = diagnostic_request\<lparr>msg_timestamp := 0\<rparr>"

definition unsized_request :: java_message where
  "unsized_request = diagnostic_request\<lparr>msg_dataSize := 0\<rparr>"

definition unsized_padded_request :: java_message where
  "unsized_padded_request =
     diagnostic_request\<lparr>msg_dataSize := 0, msg_data := Some [0x02, 0x10, 0x03, 0x00]\<rparr>"

definition oversized_request :: java_message where
  "oversized_request = diagnostic_request\<lparr>msg_data := Some (replicate 4128 0x55 @ [0x01, 0x02])\<rparr>"

section \<open>Properties of the JNI wrapper\<close>

declare write_loop.simps [simp del] scan_loop.simps [simp del]

lemmas status_defs =
  STATUS_NOERROR_def ERR_NOT_SUPPORTED_def ERR_INVALID_PROTOCOL_ID_def
  ERR_NULL_PARAMETER_def ERR_INVALID_IOCTL_VALUE_def ERR_INVALID_MSG_def
  ERR_INVALID_IOCTL_ID_def ERR_PIN_INVALID_def

lemmas filter_defs = PASS_FILTER_def BLOCK_FILTER_def FLOW_CONTROL_FILTER_def

subsection \<open>The protocol range\<close>

lemma valid_protocol_iff: "\<not> (p <s 1 \<or> 10 <s p) \<longleftrightarrow> 1 \<le>s p \<and> p \<le>s (10 :: jlong)"
  by (simp add: word_sless_alt word_sle_eq) linarith

subsection \<open>The scan loop\<close>

text \<open>
  The loop runs twice, so a scan is two, one or no stores, depending on the
  free slots.
\<close>

lemma simulated_handle: "handle (simulated_device i) = 1000 + of_nat i"
  by (simp add: simulated_device_def)

lemma scan_loop_unfold:
  "scan_loop i s out =
     (if i < 2 then
        (if g_device_count s < 32 then
           scan_loop (Suc i) (store_device i s) (out @ [simulated_device i])
         else scan_loop (Suc i) s out)
      else (out, s))"
  by (subst scan_loop.simps) (simp add: store_device_def)

lemma scan_loop_stop: "scan_loop (Suc (Suc 0)) s out = (out, s)"
  by (subst scan_loop_unfold) simp

lemma scan_loop_second:
  "scan_loop (Suc 0) s out =
     (if g_device_count s < 32 then (out @ [simulated_device 1], store_device 1 s)
      else (out, s))"
  by (subst scan_loop_unfold) (simp add: scan_loop_stop)

lemma scan_explicit:
  "J2534JniWrapper_scanForDevices s =
     (if g_device_count s < 31 then
        ([simulated_device 0, simulated_device 1], store_device 1 (store_device 0 s))
      else if g_device_count s = 31 then ([simulated_device 0], store_device 0 s)
      else ([], s))"
  unfolding J2534JniWrapper_scanForDevices_def
  by (subst scan_loop_unfold) (simp add: scan_loop_second store_device_def)

lemma store_device_fields [simp]:
  "g_device_count (store_device i s) = Suc (g_device_count s)"
  "length (g_devices (store_device i s)) = length (g_devices s)"
  "g_last_error (store_device i s) = g_last_error s"
  by (simp_all add: store_device_def)

lemma active_handles_setLastError [simp]:
  "active_handles (setLastError e s) = active_handles s"
  by (simp add: active_handles_def setLastError_def)

lemma active_handles_store:
  "g_device_count s < length (g_devices s) \<Longrightarrow>
   active_handles (store_device i s) = active_handles s @ [1000 + of_nat i]"
  by (simp add: active_handles_def store_device_def take_Suc_conv_app_nth simulated_handle)

lemma scan_count:
  "g_device_count s \<le> 32 \<Longrightarrow>
   g_device_count (snd (J2534JniWrapper_scanForDevices s)) = min 32 (g_device_count s + 2)"
  by (simp add: scan_explicit)

lemma scan_length:
  "length (g_devices (snd (J2534JniWrapper_scanForDevices s))) = length (g_devices s)"
  by (simp add: scan_explicit)

lemma scan_last_error:
  "g_last_error (snd (J2534JniWrapper_scanForDevices s)) = g_last_error s"
  by (simp add: scan_explicit)

lemma scan_returned_handles:
  "g_device_count s \<le> 32 \<Longrightarrow>
   map handle (fst (J2534JniWrapper_scanForDevices s)) =
     take (32 - g_device_count s) [1000, 1001]"
  by (auto simp: scan_explicit simulated_handle take_Suc_conv_app_nth numeral_eq_Suc)

lemma scan_active_handles:
  "length (g_devices s) = 32 \<Longrightarrow>
   active_handles (snd (J2534JniWrapper_scanForDevices s)) =
     active_handles s @ map handle (fst (J2534JniWrapper_scanForDevices s))"
  by (simp add: scan_explicit active_handles_store simulated_handle)

subsection \<open>The write loop\<close>

text \<open>
  The loop reports an error exactly when some element it visits (index below
  \<open>numMessages\<close> and inside the array, not null) fails the range test; an
  exception becomes pending exactly when it completes and \<open>numMessages\<close>
  reaches beyond the array.
\<close>

lemma write_loop_result:
  "write_loop i n msgs pending s =
     (if \<exists>j. i \<le> j \<and> int j < sint n \<and> j < length msgs \<and> invalid_message (msgs ! j)
      then ((ERR_INVALID_MSG, pending), setLastError ''Invalid protocol ID in message'' s)
      else ((STATUS_NOERROR, pending \<or> (\<exists>j. i \<le> j \<and> int j < sint n \<and> length msgs \<le> j)),
            s))"
proof (induction i n msgs pending s rule: write_loop.induct)
  case (1 i n msgs pending s)
  let ?bad = "\<lambda>k. \<exists>j. k \<le> j \<and> int j < sint n \<and> j < length msgs \<and> invalid_message (msgs ! j)"
  let ?out = "\<lambda>k. \<exists>j. k \<le> j \<and> int j < sint n \<and> length msgs \<le> j"
  let ?err = "\<lambda>p. ((ERR_INVALID_MSG, p), setLastError ''Invalid protocol ID in message'' s)"
  have bad_step: "?bad i \<longleftrightarrow> ?bad (i + 1)"
    if "\<not> (i < length msgs \<and> invalid_message (msgs ! i))"
  proof
    assume "?bad i"
    then obtain j where j: "i \<le> j" "int j < sint n" "j < length msgs"
      "invalid_message (msgs ! j)"
      by blast
    with that have "j \<noteq> i" by auto
    with j have "i + 1 \<le> j" by simp
    with j show "?bad (i + 1)" by blast
  next
    assume "?bad (i + 1)"
    then obtain j where "i + 1 \<le> j" "int j < sint n" "j < length msgs"
      "invalid_message (msgs ! j)"
      by blast
    moreover from this have "i \<le> j" by simp
    ultimately show "?bad i" by blast
  qed
  have out_step: "?out i \<longleftrightarrow> ?out (i + 1)" if "i < length msgs"
  proof
    assume "?out i"
    then obtain j where j: "i \<le> j" "int j < sint n" "length msgs \<le> j" by blast
    with that have "i + 1 \<le> j" by simp
    with j show "?out (i + 1)" by blast
  next
    assume "?out (i + 1)"
    then obtain j where "i + 1 \<le> j" "int j < sint n" "length msgs \<le> j" by blast
    moreover from this have "i \<le> j" by simp
    ultimately show "?out i" by blast
  qed
  show ?case
  proof (cases "int i < sint n")
    case False
    then have "\<not> ?bad i" and "\<not> ?out i" by auto
    moreover from False have "write_loop i n msgs pending s = ((STATUS_NOERROR, pending), s)"
      by (subst write_loop.simps) simp
    ultimately show ?thesis by (simp only: if_False simp_thms)
  next
    case True
    show ?thesis
    proof (cases "GetObjectArrayElement msgs i")
      case (Inl e)
      then have beyond: "length msgs \<le> i"
        by (simp add: GetObjectArrayElement_def split: if_splits)
      then have "\<not> ?bad i" and "\<not> ?bad (i + 1)" by auto
      moreover from beyond True have "?out i" by blast
      moreover from True Inl
      have "write_loop i n msgs pending s = write_loop (i + 1) n msgs True s"
        by (subst write_loop.simps) simp
      ultimately show ?thesis
        using "1.IH"(1) [OF True Inl] by (simp only: if_False simp_thms)
    next
      case (Inr element)
      then have inside: "i < length msgs" and el: "msgs ! i = element"
        by (auto simp: GetObjectArrayElement_def split: if_splits)
      show ?thesis
      proof (cases element)
        case None
        with el have "\<not> (i < length msgs \<and> invalid_message (msgs ! i))"
          by (simp add: invalid_message_def)
        then have "?bad i \<longleftrightarrow> ?bad (i + 1)" by (rule bad_step)
        moreover from inside have "?out i \<longleftrightarrow> ?out (i + 1)" by (rule out_step)
        moreover from True Inr None
        have "write_loop i n msgs pending s = write_loop (i + 1) n msgs pending s"
          by (subst write_loop.simps) simp
        ultimately show ?thesis
          using "1.IH"(2) [OF True Inr None] by (simp only:)
      next
        case (Some msgObj)
        show ?thesis
        proof (cases "invalid_message (Some msgObj)")
          case bad: True
          with inside el Some True have "?bad i" by auto
          moreover from True Inr Some bad have "write_loop i n msgs pending s = ?err pending"
            by (subst write_loop.simps) (simp add: invalid_message_def getJavaMessage_def)
          ultimately show ?thesis by (simp only: if_True)
        next
          case good: False
          with el Some have "\<not> (i < length msgs \<and> invalid_message (msgs ! i))" by simp
          then have "?bad i \<longleftrightarrow> ?bad (i + 1)" by (rule bad_step)
          moreover from inside have "?out i \<longleftrightarrow> ?out (i + 1)" by (rule out_step)
          moreover have valid:
            "\<not> (protocolID (getJavaMessage msgObj) <s 1 \<or>
                10 <s protocolID (getJavaMessage msgObj))"
            using good by (simp add: invalid_message_def getJavaMessage_def)
          moreover from True Inr Some valid
          have "write_loop i n msgs pending s = write_loop (i + 1) n msgs pending s"
            by (subst write_loop.simps) simp
          ultimately show ?thesis
            using "1.IH"(3) [OF True Inr Some refl valid] by (simp only:)
        qed
      qed
    qed
  qed
qed

lemma writeMessages_result:
  "J2534JniWrapper_writeMessages s h (Some msgs) n t =
     (if \<exists>j. int j < sint n \<and> j < length msgs \<and> invalid_message (msgs ! j)
      then (Inr ERR_INVALID_MSG, setLastError ''Invalid protocol ID in message'' s)
      else if \<exists>j. int j < sint n \<and> length msgs \<le> j
      then (Inl ArrayIndexOutOfBoundsException, s)
      else (Inr STATUS_NOERROR, s))"
proof -
  let ?bad = "\<exists>j. int j < sint n \<and> j < length msgs \<and> invalid_message (msgs ! j)"
  let ?out = "\<exists>j. int j < sint n \<and> length msgs \<le> j"
  have "write_loop 0 n msgs False s =
     (if ?bad then ((ERR_INVALID_MSG, False), setLastError ''Invalid protocol ID in message'' s)
      else ((STATUS_NOERROR, ?out), s))"
    by (simp only: write_loop_result le0 simp_thms)
  then show ?thesis
    by (cases ?bad; cases ?out)
       (simp_all only: J2534JniWrapper_writeMessages_def option.case prod.case if_True if_False)
qed

subsection \<open>An invariant of the device registry\<close>

lemma registry_inv_setLastError: "registry_inv s \<Longrightarrow> registry_inv (setLastError e s)"
  by (simp add: registry_inv_def) (simp add: setLastError_def)

lemma registry_inv_start: "registry_inv process_start"
  by (simp add: registry_inv_def process_start_def active_handles_def)

lemma registry_inv_initialize: "registry_inv (snd (J2534JniWrapper_initialize s))"
  by (simp add: registry_inv_def J2534JniWrapper_initialize_def active_handles_def)

lemma registry_inv_cleanup: "registry_inv (J2534JniWrapper_cleanup s)"
  by (simp add: registry_inv_def J2534JniWrapper_cleanup_def active_handles_def)

lemma registry_inv_scan:
  assumes "registry_inv s"
  shows "registry_inv (snd (J2534JniWrapper_scanForDevices s))"
proof -
  from assms have c: "g_device_count s \<le> 32" and l: "length (g_devices s) = 32"
    and h: "set (active_handles s) \<subseteq> {1000, 1001}"
    by (simp_all add: registry_inv_def)
  have "set (take (32 - g_device_count s) [1000, 1001 :: jlong]) \<subseteq> {1000, 1001}"
    using set_take_subset [of "32 - g_device_count s" "[1000, 1001 :: jlong]"] by simp
  with h have "set (active_handles (snd (J2534JniWrapper_scanForDevices s))) \<subseteq> {1000, 1001}"
    by (simp add: scan_active_handles [OF l] scan_returned_handles [OF c])
  then show ?thesis
    using c l by (simp add: registry_inv_def scan_count scan_length)
qed

lemma connect_state:
  "snd (J2534JniWrapper_connect s d p f b) = s \<or>
   snd (J2534JniWrapper_connect s d p f b) = setLastError ''Invalid protocol ID'' s"
  by (simp add: J2534JniWrapper_connect_def)

lemma startMessageFilter_state:
  "snd (J2534JniWrapper_startMessageFilter s h ft m p fc) = s \<or>
   (\<exists>e. snd (J2534JniWrapper_startMessageFilter s h ft m p fc) = setLastError e s)"
  by (auto simp: J2534JniWrapper_startMessageFilter_def)

lemma ioctl_state:
  "snd (J2534JniWrapper_ioctl s h c i out) = s \<or>
   snd (J2534JniWrapper_ioctl s h c i out) = setLastError ''Unsupported IOCTL operation'' s"
  by (simp add: J2534JniWrapper_ioctl_def)

lemma writeMessages_state:
  "snd (J2534JniWrapper_writeMessages s h ms n t) = s \<or>
   (\<exists>e. snd (J2534JniWrapper_writeMessages s h ms n t) = setLastError e s)"
proof (cases ms)
  case None
  then show ?thesis by (auto simp: J2534JniWrapper_writeMessages_def)
next
  case (Some msgs)
  then show ?thesis by (auto simp: writeMessages_result)
qed

lemma reachable_registry_inv: "reachable s \<Longrightarrow> registry_inv s"
proof (induction rule: reachable.induct)
  case start
  show ?case by (rule registry_inv_start)
next
  case (initialize s)
  show ?case by (rule registry_inv_initialize)
next
  case (scanForDevices s)
  from scanForDevices.IH show ?case by (rule registry_inv_scan)
next
  case (cleanup s)
  show ?case by (rule registry_inv_cleanup)
next
  case (connect s d p f b)
  then show ?case
    using connect_state [of s d p f b] by (auto intro: registry_inv_setLastError)
next
  case (disconnect s h)
  then show ?case by (simp add: J2534JniWrapper_disconnect_def)
next
  case (writeMessages s h ms n t)
  then show ?case
    using writeMessages_state [of s h ms n t] by (auto intro: registry_inv_setLastError)
next
  case (startMessageFilter s h ft m p fc)
  then show ?case
    using startMessageFilter_state [of s h ft m p fc] by (auto intro: registry_inv_setLastError)
next
  case (stopMessageFilter s h fid)
  then show ?case by (simp add: J2534JniWrapper_stopMessageFilter_def)
next
  case (ioctl s h c i out)
  then show ?case
    using ioctl_state [of s h c i out] by (auto intro: registry_inv_setLastError)
next
  case (startPeriodicMessage s h pm pid per)
  then show ?case
    by (auto simp: J2534JniWrapper_startPeriodicMessage_def intro: registry_inv_setLastError)
next
  case (stopPeriodicMessage s h pid)
  then show ?case by (simp add: J2534JniWrapper_stopPeriodicMessage_def)
next
  case (setProgrammingVoltage s h pin v)
  then show ?case
    by (auto simp: J2534JniWrapper_setProgrammingVoltage_def intro: registry_inv_setLastError)
next
  case (setLastError s e)
  from setLastError.IH show ?case by (rule registry_inv_setLastError)
qed

subsection \<open>The example sessions\<close>

lemma scanned_once_eval:
  "scanned_once = store_device 1 (store_device 0 process_start)"
  by (simp add: scanned_once_def scan_state_def scan_explicit process_start_def)

lemma active_handles_scanned_once: "active_handles scanned_once = [1000, 1001]"
  by (simp add: scanned_once_eval active_handles_store process_start_def)
     (simp add: active_handles_def)

lemma reachable_scanned_once: "reachable scanned_once"
  unfolding scanned_once_def scan_state_def
  by (intro reachable.scanForDevices reachable.start)

lemma reachable_scan_state_funpow: "reachable s \<Longrightarrow> reachable ((scan_state ^^ n) s)"
  by (induction n) (simp_all add: scan_state_def reachable.scanForDevices)

lemma scan_state_funpow_count:
  "g_device_count ((scan_state ^^ n) process_start) = min 32 (2 * n)"
proof (induction n)
  case 0
  show ?case by (simp add: process_start_def)
next
  case (Suc n)
  then have "g_device_count ((scan_state ^^ n) process_start) \<le> 32" by simp
  then show ?case
    using Suc by (simp add: scan_state_def scan_count)
qed

lemma reachable_full_registry: "reachable full_registry"
  unfolding full_registry_def by (rule reachable_scan_state_funpow) (rule reachable.start)

lemma full_registry_count: "g_device_count full_registry = 32"
  by (simp add: full_registry_def scan_state_funpow_count)

lemma full_registry_last_error: "g_last_error full_registry = []"
proof -
  have "g_last_error ((scan_state ^^ n) process_start) = []" for n
    by (induction n) (simp_all add: scan_state_def scan_last_error process_start_def)
  then show ?thesis by (simp add: full_registry_def)
qed

subsection \<open>connect\<close>

text \<open>
  Claim C1, as the code has it. In every reachable state: for a protocol id in
  1..10, \<open>connect\<close> returns \<open>deviceHandle + 10000\<close> and changes nothing; when
  \<open>deviceHandle\<close> is the handle of a device in the registry, that value is not
  the handle of any device in the registry and is not the
  \<open>ERR_INVALID_PROTOCOL_ID\<close> code. For a protocol id outside 1..10 it returns
  \<open>ERR_INVALID_PROTOCOL_ID\<close>, and the only global written is the last-error
  text, so the device registry is as before. The code keeps no record of
  channels, and nothing is said about the handle being new among channels.
\<close>

theorem connect_protocol_check:
  assumes "reachable s"
  shows "(1 \<le>s protocol \<and> protocol \<le>s 10 \<longrightarrow>
            J2534JniWrapper_connect s deviceHandle protocol flags baudrate =
              (deviceHandle + 10000, s) \<and>
            (deviceHandle \<in> set (active_handles s) \<longrightarrow>
               deviceHandle + 10000 \<notin> set (active_handles s) \<and>
               deviceHandle + 10000 \<noteq> ERR_INVALID_PROTOCOL_ID)) \<and>
         (protocol <s 1 \<or> 10 <s protocol \<longrightarrow>
            J2534JniWrapper_connect s deviceHandle protocol flags baudrate =
              (ERR_INVALID_PROTOCOL_ID, setLastError ''Invalid protocol ID'' s) \<and>
            active_handles (setLastError ''Invalid protocol ID'' s) = active_handles s)"
proof -
  from assms have "registry_inv s" by (rule reachable_registry_inv)
  then have sub: "set (active_handles s) \<subseteq> {1000, 1001}"
    by (simp add: registry_inv_def)
  have fresh: "deviceHandle + 10000 \<notin> set (active_handles s) \<and>
      deviceHandle + 10000 \<noteq> ERR_INVALID_PROTOCOL_ID"
    if "deviceHandle \<in> set (active_handles s)"
  proof -
    from that sub have "deviceHandle = 1000 \<or> deviceHandle = 1001" by auto
    then have "deviceHandle + 10000 = 11000 \<or> deviceHandle + 10000 = 11001" by auto
    moreover have "(11000 :: jlong) \<notin> set (active_handles s)" "(11001 :: jlong) \<notin> set (active_handles s)"
      using sub by auto
    ultimately show ?thesis by (auto simp: ERR_INVALID_PROTOCOL_ID_def)
  qed
  have valid: "J2534JniWrapper_connect s deviceHandle protocol flags baudrate =
      (deviceHandle + 10000, s)" if "1 \<le>s protocol \<and> protocol \<le>s 10"
    using that valid_protocol_iff [of protocol] by (simp add: J2534JniWrapper_connect_def)
  have invalid: "J2534JniWrapper_connect s deviceHandle protocol flags baudrate =
      (ERR_INVALID_PROTOCOL_ID, setLastError ''Invalid protocol ID'' s)"
    if "protocol <s 1 \<or> 10 <s protocol"
    using that by (simp add: J2534JniWrapper_connect_def)
  from fresh valid invalid show ?thesis by simp
qed

theorem connect_protocol_check_witness:
  "reachable scanned_once \<and> 1000 \<in> set (active_handles scanned_once) \<and>
   J2534JniWrapper_connect scanned_once 1000 6 0 500000 = (11000, scanned_once) \<and>
   11000 \<notin> set (active_handles scanned_once) \<and>
   J2534JniWrapper_connect scanned_once 1000 99 0 500000 =
     (ERR_INVALID_PROTOCOL_ID, setLastError ''Invalid protocol ID'' scanned_once)"
proof -
  have v: "1 \<le>s (6 :: jlong) \<and> (6 :: jlong) \<le>s 10" by (simp add: word_sle_eq)
  have i: "(99 :: jlong) <s 1 \<or> 10 <s (99 :: jlong)" by (simp add: word_sless_alt)
  have m: "1000 \<in> set (active_handles scanned_once)"
    by (simp add: active_handles_scanned_once)
  from connect_protocol_check [OF reachable_scanned_once, of 6 1000 0 500000] v m
       connect_protocol_check [OF reachable_scanned_once, of 99 1000 0 500000] i
       reachable_scanned_once
  show ?thesis by simp
qed

text \<open>
  The claim as written asks for a handle distinct from every channel handle in
  use. Two connects on device 1000, with no disconnect between them, both return
  11000.
\<close>

theorem connect_repeated_handle_counterexample:
  "1000 \<in> set (active_handles scanned_once) \<and>
   fst (J2534JniWrapper_connect scanned_once 1000 6 0 500000) = 11000 \<and>
   fst (J2534JniWrapper_connect
          (snd (J2534JniWrapper_connect scanned_once 1000 6 0 500000)) 1000 6 0 500000) = 11000"
  by (simp add: active_handles_scanned_once J2534JniWrapper_connect_def word_sless_alt)

subsection \<open>writeMessages\<close>

text \<open>
  Claim C2. A null array gives \<open>ERR_NULL_PARAMETER\<close>. The batch is the
  \<open>numMessages\<close> first elements of the array; if one of them has a protocol id
  outside 1..10 the call returns \<open>ERR_INVALID_MSG\<close>, and if all of them have a
  protocol id in 1..10 it returns \<open>STATUS_NOERROR\<close>. In each case the resulting
  state is given in full: nothing but the last-error text is ever written, so no
  message of a rejected batch goes anywhere.
\<close>

theorem writeMessages_validation:
  "J2534JniWrapper_writeMessages s h None numMessages timeout =
     (Inr ERR_NULL_PARAMETER, setLastError ''Messages array is null'' s) \<and>
   ((\<exists>i msgObj. int i < sint numMessages \<and> i < length msgs \<and> msgs ! i = Some msgObj \<and>
        (jm_protocolID msgObj <s 1 \<or> 10 <s jm_protocolID msgObj)) \<longrightarrow>
    J2534JniWrapper_writeMessages s h (Some msgs) numMessages timeout =
      (Inr ERR_INVALID_MSG, setLastError ''Invalid protocol ID in message'' s)) \<and>
   (sint numMessages \<le> int (length msgs) \<and>
    (\<forall>i msgObj. int i < sint numMessages \<and> msgs ! i = Some msgObj \<longrightarrow>
        1 \<le>s jm_protocolID msgObj \<and> jm_protocolID msgObj \<le>s 10) \<longrightarrow>
    J2534JniWrapper_writeMessages s h (Some msgs) numMessages timeout =
      (Inr STATUS_NOERROR, s))"
proof (intro conjI impI)
  show "J2534JniWrapper_writeMessages s h None numMessages timeout =
     (Inr ERR_NULL_PARAMETER, setLastError ''Messages array is null'' s)"
    by (simp add: J2534JniWrapper_writeMessages_def)
next
  assume "\<exists>i msgObj. int i < sint numMessages \<and> i < length msgs \<and> msgs ! i = Some msgObj \<and>
        (jm_protocolID msgObj <s 1 \<or> 10 <s jm_protocolID msgObj)"
  then obtain i msgObj where "int i < sint numMessages" "i < length msgs"
    "msgs ! i = Some msgObj" "jm_protocolID msgObj <s 1 \<or> 10 <s jm_protocolID msgObj"
    by blast
  then have "\<exists>j. int j < sint numMessages \<and> j < length msgs \<and> invalid_message (msgs ! j)"
    by (intro exI [of _ i]) (simp add: invalid_message_def)
  then show "J2534JniWrapper_writeMessages s h (Some msgs) numMessages timeout =
      (Inr ERR_INVALID_MSG, setLastError ''Invalid protocol ID in message'' s)"
    by (simp only: writeMessages_result if_True)
next
  assume ok: "sint numMessages \<le> int (length msgs) \<and>
    (\<forall>i msgObj. int i < sint numMessages \<and> msgs ! i = Some msgObj \<longrightarrow>
        1 \<le>s jm_protocolID msgObj \<and> jm_protocolID msgObj \<le>s 10)"
  have "\<not> (\<exists>j. int j < sint numMessages \<and> j < length msgs \<and> invalid_message (msgs ! j))"
  proof
    assume "\<exists>j. int j < sint numMessages \<and> j < length msgs \<and> invalid_message (msgs ! j)"
    then obtain j where j: "int j < sint numMessages" "j < length msgs"
      "invalid_message (msgs ! j)"
      by blast
    from j(3) obtain msgObj where m: "msgs ! j = Some msgObj"
      "jm_protocolID msgObj <s 1 \<or> 10 <s jm_protocolID msgObj"
      by (auto simp: invalid_message_def split: option.splits)
    from ok j m(1) have "1 \<le>s jm_protocolID msgObj \<and> jm_protocolID msgObj \<le>s 10" by blast
    with m(2) show False using valid_protocol_iff [of "jm_protocolID msgObj"] by blast
  qed
  moreover from ok have "\<not> (\<exists>j. int j < sint numMessages \<and> length msgs \<le> j)"
    by auto
  ultimately show "J2534JniWrapper_writeMessages s h (Some msgs) numMessages timeout =
      (Inr STATUS_NOERROR, s)"
    by (simp only: writeMessages_result if_False)
qed

theorem writeMessages_validation_witness:
  "J2534JniWrapper_writeMessages scanned_once 11000
     (Some [Some example_message, Some invalid_example_message]) 2 1000 =
     (Inr ERR_INVALID_MSG, setLastError ''Invalid protocol ID in message'' scanned_once) \<and>
   J2534JniWrapper_writeMessages scanned_once 11000
     (Some [Some example_message, None]) 2 1000 = (Inr STATUS_NOERROR, scanned_once)"
proof -
  have bad: "\<exists>i msgObj. int i < sint (2 :: jint) \<and>
      i < length [Some example_message, Some invalid_example_message] \<and>
      [Some example_message, Some invalid_example_message] ! i = Some msgObj \<and>
      (jm_protocolID msgObj <s 1 \<or> 10 <s jm_protocolID msgObj)"
    by (intro exI [of _ 1] exI [of _ invalid_example_message])
       (simp add: invalid_example_message_def word_sless_alt)
  have good: "sint (2 :: jint) \<le> int (length [Some example_message, None]) \<and>
      (\<forall>i msgObj. int i < sint (2 :: jint) \<and>
        [Some example_message, None] ! i = Some msgObj \<longrightarrow>
        1 \<le>s jm_protocolID msgObj \<and> jm_protocolID msgObj \<le>s 10)"
    by (auto simp: less_Suc_eq nth_Cons' example_message_def word_sle_eq split: if_splits)
  from writeMessages_validation
         [of scanned_once 11000 2 1000 "[Some example_message, Some invalid_example_message]"]
       writeMessages_validation [of scanned_once 11000 2 1000 "[Some example_message, None]"]
       bad good
  show ?thesis by blast
qed

subsection \<open>disconnect and stopMessageFilter\<close>

text \<open>
  Claim C4, as the code has it. \<open>disconnect\<close> returns \<open>STATUS_NOERROR\<close> and
  changes nothing, and \<open>stopMessageFilter\<close> after it returns
  \<open>STATUS_NOERROR\<close> and changes nothing, for every channel handle and every
  filter id: the code keeps no record of filters and has no not-found answer.
\<close>

theorem stopMessageFilter_after_disconnect:
  "J2534JniWrapper_disconnect s h = (STATUS_NOERROR, s) \<and>
   J2534JniWrapper_stopMessageFilter (snd (J2534JniWrapper_disconnect s h)) h filterId =
     (STATUS_NOERROR, s)"
  by (simp add: J2534JniWrapper_disconnect_def J2534JniWrapper_stopMessageFilter_def)

text \<open>
  The scenario of the claim: connect on device 1000 gives channel 11000, a pass
  filter on it gets id 12000, the channel is disconnected, and stopping filter
  12000 still reports \<open>STATUS_NOERROR\<close>.
\<close>

theorem stopMessageFilter_after_disconnect_counterexample:
  "J2534JniWrapper_connect scanned_once 1000 6 0 500000 = (11000, scanned_once) \<and>
   J2534JniWrapper_startMessageFilter scanned_once 11000 PASS_FILTER (Some example_message)
     (Some example_message) None = (12000, scanned_once) \<and>
   J2534JniWrapper_disconnect scanned_once 11000 = (STATUS_NOERROR, scanned_once) \<and>
   fst (J2534JniWrapper_stopMessageFilter (snd (J2534JniWrapper_disconnect scanned_once 11000))
          11000 12000) = STATUS_NOERROR"
  by (simp add: J2534JniWrapper_connect_def J2534JniWrapper_startMessageFilter_def
      J2534JniWrapper_disconnect_def J2534JniWrapper_stopMessageFilter_def filter_defs
      word_sless_alt)

subsection \<open>scanForDevices\<close>

text \<open>
  Claim C5, as the code has it. In every reachable state the registry holds at
  most 32 devices. A scan stores the simulated devices 1000 and 1001 while slots
  are free (both, only the first when one slot is left, none when the registry
  is full), returns exactly the devices it stored, appends their handles to the
  active ones, and never touches the last-error text. On a full registry it
  returns the empty list and leaves the whole state as it was. No error is
  reported for a full registry, and nothing is said about handles being unique.
\<close>

theorem scanForDevices_capacity:
  assumes "reachable s"
  shows "g_device_count s \<le> 32 \<and>
    g_device_count (snd (J2534JniWrapper_scanForDevices s)) = min 32 (g_device_count s + 2) \<and>
    map handle (fst (J2534JniWrapper_scanForDevices s)) =
      take (32 - g_device_count s) [1000, 1001] \<and>
    active_handles (snd (J2534JniWrapper_scanForDevices s)) =
      active_handles s @ map handle (fst (J2534JniWrapper_scanForDevices s)) \<and>
    g_last_error (snd (J2534JniWrapper_scanForDevices s)) = g_last_error s \<and>
    (g_device_count s = 32 \<longrightarrow> J2534JniWrapper_scanForDevices s = ([], s))"
proof -
  from assms have "registry_inv s" by (rule reachable_registry_inv)
  then have c: "g_device_count s \<le> 32" and l: "length (g_devices s) = 32"
    by (simp_all add: registry_inv_def)
  have "g_device_count s = 32 \<longrightarrow> J2534JniWrapper_scanForDevices s = ([], s)"
    by (simp add: scan_explicit)
  with c scan_count [OF c] scan_returned_handles [OF c] scan_active_handles [OF l]
    scan_last_error [of s]
  show ?thesis by (simp only: simp_thms)
qed

theorem scanForDevices_capacity_witness:
  "reachable full_registry \<and> g_device_count full_registry = 32 \<and>
   J2534JniWrapper_scanForDevices full_registry = ([], full_registry) \<and>
   reachable process_start \<and>
   map handle (fst (J2534JniWrapper_scanForDevices process_start)) = [1000, 1001] \<and>
   g_device_count (snd (J2534JniWrapper_scanForDevices process_start)) = 2"
  using scanForDevices_capacity [OF reachable_full_registry]
        scanForDevices_capacity [OF reachable.start]
        reachable_full_registry reachable.start full_registry_count
  by (simp add: process_start_def)

text \<open>
  The claim as written asks for unique handles and for an error beyond capacity.
  After two scans the active handles are 1000, 1001, 1000, 1001; and the scan
  on the full registry (16 scans from the start) returns an empty list with the
  last-error text still empty.
\<close>

theorem scanForDevices_capacity_counterexample:
  "active_handles (scan_state scanned_once) = [1000, 1001, 1000, 1001] \<and>
   \<not> distinct (active_handles (scan_state scanned_once)) \<and>
   g_device_count full_registry = 32 \<and>
   J2534JniWrapper_scanForDevices full_registry = ([], full_registry) \<and>
   g_last_error (snd (J2534JniWrapper_scanForDevices full_registry)) = []"
proof -
  have l: "length (g_devices scanned_once) = 32"
    by (simp add: scanned_once_eval) (simp add: process_start_def)
  have c: "g_device_count scanned_once = 2"
    by (simp add: scanned_once_eval) (simp add: process_start_def)
  then have "map handle (fst (J2534JniWrapper_scanForDevices scanned_once)) = [1000, 1001]"
    by (simp add: scan_returned_handles)
  with scan_active_handles [OF l]
  have a: "active_handles (scan_state scanned_once) = [1000, 1001, 1000, 1001]"
    by (simp add: scan_state_def active_handles_scanned_once)
  have f: "J2534JniWrapper_scanForDevices full_registry = ([], full_registry)"
    by (simp add: scan_explicit full_registry_count)
  from a f full_registry_count full_registry_last_error show ?thesis by simp
qed

subsection \<open>connect and the device registry\<close>

text \<open>
  Claim C8, as the code has it. \<open>connect\<close> never looks at the device registry:
  for a protocol id in 1..10 it returns \<open>deviceHandle + 10000\<close> and leaves the
  state unchanged for every \<open>deviceHandle\<close> and every state, whether or not
  that handle belongs to a device in the registry.
\<close>

theorem connect_ignores_registry:
  "1 \<le>s protocol \<and> protocol \<le>s 10 \<Longrightarrow>
   J2534JniWrapper_connect s deviceHandle protocol flags baudrate = (deviceHandle + 10000, s)"
  using valid_protocol_iff [of protocol] by (simp add: J2534JniWrapper_connect_def)

theorem connect_ignores_registry_witness:
  "1 \<le>s (6 :: jlong) \<and> (6 :: jlong) \<le>s 10 \<and> active_handles process_start = [] \<and>
   J2534JniWrapper_connect process_start 5 6 0 500000 = (10005, process_start)"
proof -
  have v: "1 \<le>s (6 :: jlong) \<and> (6 :: jlong) \<le>s 10" by (simp add: word_sle_eq)
  from connect_ignores_registry [OF v, of process_start 5 0 500000] v show ?thesis
    by (simp add: active_handles_def process_start_def)
qed

text \<open>
  The claim as written needs the device to be open. At process start no device
  is in the registry, and connect on handle 5 returns the channel handle 10005.
\<close>

theorem connect_without_device_counterexample:
  "reachable process_start \<and> 5 \<notin> set (active_handles process_start) \<and>
   J2534JniWrapper_connect process_start 5 6 0 500000 = (10005, process_start)"
  using reachable.start
  by (simp add: active_handles_def J2534JniWrapper_connect_def word_sless_alt)
     (simp add: process_start_def)

subsection \<open>ioctl\<close>

text \<open>
  Claim C9, as the code has it. For the codes 0x01 (get-config), 0x02
  (set-config), 0x03 (get-version) and 0x07 (read-battery-voltage) \<open>ioctl\<close>
  returns \<open>STATUS_NOERROR\<close> and changes nothing; for every other code it
  returns \<open>ERR_INVALID_IOCTL_ID\<close> and records the error text.
\<close>

theorem ioctl_codes:
  "J2534JniWrapper_ioctl s h ioControlCode input output =
     (if ioControlCode = 0x01 \<or> ioControlCode = 0x02 \<or> ioControlCode = 0x03 \<or>
         ioControlCode = 0x07
      then (STATUS_NOERROR, s)
      else (ERR_INVALID_IOCTL_ID, setLastError ''Unsupported IOCTL operation'' s))"
  by (simp add: J2534JniWrapper_ioctl_def)

theorem ioctl_codes_witness:
  "J2534JniWrapper_ioctl scanned_once 11000 0x02 0 0 = (STATUS_NOERROR, scanned_once) \<and>
   J2534JniWrapper_ioctl scanned_once 11000 0x04 0 0 =
     (ERR_INVALID_IOCTL_ID, setLastError ''Unsupported IOCTL operation'' scanned_once)"
  using ioctl_codes [of scanned_once 11000 "0x02" 0 0]
        ioctl_codes [of scanned_once 11000 "0x04" 0 0]
  by simp

text \<open>
  The claim as written asks for \<open>ERR_NOT_SUPPORTED\<close> on the recognised codes.
  Reading the battery voltage (0x07) returns \<open>STATUS_NOERROR\<close>.
\<close>

theorem ioctl_read_vbatt_counterexample:
  "J2534JniWrapper_ioctl scanned_once 11000 0x07 0 0 = (STATUS_NOERROR, scanned_once) \<and>
   fst (J2534JniWrapper_ioctl scanned_once 11000 0x07 0 0) \<noteq> ERR_NOT_SUPPORTED"
  by (simp add: J2534JniWrapper_ioctl_def status_defs)

subsection \<open>startMessageFilter\<close>

text \<open>
  Claim C10. A null mask or pattern gives \<open>ERR_NULL_PARAMETER\<close>; with both
  present, a filter type other than pass, block and flow control gives
  \<open>ERR_INVALID_IOCTL_VALUE\<close>; in both cases only the last-error text is
  written. With both present and the flow-control type, the call returns the
  filter id \<open>1000 + handle\<close> and changes nothing, whether the flow-control
  message is present or null.
\<close>

theorem startMessageFilter_validation:
  "(maskObj = None \<or> patternObj = None \<longrightarrow>
      J2534JniWrapper_startMessageFilter s h filterType maskObj patternObj flowControl =
        (ERR_NULL_PARAMETER, setLastError ''Mask or pattern is null'' s)) \<and>
   (maskObj \<noteq> None \<and> patternObj \<noteq> None \<and> filterType \<noteq> PASS_FILTER \<and>
      filterType \<noteq> BLOCK_FILTER \<and> filterType \<noteq> FLOW_CONTROL_FILTER \<longrightarrow>
      J2534JniWrapper_startMessageFilter s h filterType maskObj patternObj flowControl =
        (ERR_INVALID_IOCTL_VALUE, setLastError ''Invalid filter type'' s)) \<and>
   (maskObj \<noteq> None \<and> patternObj \<noteq> None \<longrightarrow>
      J2534JniWrapper_startMessageFilter s h FLOW_CONTROL_FILTER maskObj patternObj flowControl =
        (1000 + h, s))"
  by (simp add: J2534JniWrapper_startMessageFilter_def filter_defs)

theorem startMessageFilter_validation_witness:
  "J2534JniWrapper_startMessageFilter scanned_once 11000 PASS_FILTER None
     (Some example_message) None =
     (ERR_NULL_PARAMETER, setLastError ''Mask or pattern is null'' scanned_once) \<and>
   J2534JniWrapper_startMessageFilter scanned_once 11000 4 (Some example_message)
     (Some example_message) None =
     (ERR_INVALID_IOCTL_VALUE, setLastError ''Invalid filter type'' scanned_once) \<and>
   J2534JniWrapper_startMessageFilter scanned_once 11000 FLOW_CONTROL_FILTER
     (Some example_message) (Some example_message) None = (12000, scanned_once)"
  using startMessageFilter_validation
          [where maskObj = None and patternObj = "Some example_message" and s = scanned_once
             and h = 11000 and filterType = PASS_FILTER and flowControl = None]
        startMessageFilter_validation
          [where maskObj = "Some example_message" and patternObj = "Some example_message"
             and s = scanned_once and h = 11000 and filterType = 4 and flowControl = None]
  by (simp add: filter_defs)

section \<open>Properties of the native binding\<close>

subsection \<open>Conversions between the integer types\<close>

lemma unat_of_sint:
  fixes x :: "32 word"
  assumes "sint x = int n" and "n \<le> 4128"
  shows "unat x = n"
proof -
  have "uint x = take_bit 32 (sint x)" by (simp add: uint_sint)
  also from assms have "\<dots> = int n" by (simp add: take_bit_int_eq_self)
  finally show ?thesis by (simp add: unat_eq_nat_uint)
qed

lemma ts_roundtrip:
  fixes t :: "64 word"
  assumes "uint t < 2 ^ 32"
  shows "(ucast (ucast t :: 32 word) :: 64 word) = t"
proof -
  have "0 \<le> uint t" by simp
  with assms have "take_bit 32 (uint t) = uint t" by (simp add: take_bit_int_eq_self)
  then show ?thesis
    by (simp add: word_uint_eq_iff unsigned_ucast_eq unsigned_take_bit_eq)
qed

subsection \<open>What the encoded message keeps\<close>

text \<open>
  Claim C3, as the code has it. Take a message with a payload of at most 4128
  bytes whose \<open>dataSize\<close> field equals the payload length and whose timestamp
  lies in 0 .. 2^32 - 1. Encoding it yields a \<open>PASSTHRU_MSG\<close> from which the
  message can be read back exactly: \<open>ProtocolID\<close>, \<open>RxStatus\<close>,
  \<open>TxFlags\<close>, \<open>DataSize\<close> and \<open>ExtraDataIndex\<close> cast to \<open>jint\<close> are the
  fields of the message, \<open>Timestamp\<close> cast to \<open>jlong\<close> is its timestamp, and
  the first \<open>DataSize\<close> bytes of \<open>Data\<close> are its payload, byte for byte.
  Nothing is said about the object that the decoder constructs from these
  values.
\<close>

theorem encoded_message_recoverable:
  assumes "msg_data m = Some payload" and "length payload \<le> 4128"
    and "sint (msg_dataSize m) = int (length payload)"
    and "uint (msg_timestamp m) < 2 ^ 32"
  shows "\<exists>n'. convert_java_message_to_native (Some m) (Some native) = Some n' \<and>
      (ucast (ProtocolID n') :: jint) = msg_protocolId m \<and>
      (ucast (RxStatus n') :: jint) = msg_rxStatus m \<and>
      (ucast (TxFlags n') :: jint) = msg_txFlags m \<and>
      (ucast (Timestamp n') :: jlong) = msg_timestamp m \<and>
      (ucast (DataSize n') :: jint) = msg_dataSize m \<and>
      (ucast (ExtraDataIndex n') :: jint) = msg_extraDataIndex m \<and>
      take (unat (DataSize n')) (Data n') = payload"
proof -
  from assms(2,3) have size: "unat (msg_dataSize m) = length payload"
    by (intro unat_of_sint) simp_all
  from assms(4) have ts: "(ucast (ucast (msg_timestamp m) :: ulong) :: jlong) = msg_timestamp m"
    by (rule ts_roundtrip)
  from assms(1,2) size ts show ?thesis
    by (simp add: convert_java_message_to_native_def memcpy_def sizeof_Data_def Let_def)
qed

theorem encoded_message_recoverable_witness:
  "msg_data diagnostic_request = Some [0x02, 0x10, 0x03] \<and>
   length [0x02, 0x10, 0x03 :: jbyte] \<le> 4128 \<and>
   sint (msg_dataSize diagnostic_request) = int (length [0x02, 0x10, 0x03 :: jbyte]) \<and>
   uint (msg_timestamp diagnostic_request) < 2 ^ 32 \<and>
   (\<exists>n'. convert_java_message_to_native (Some diagnostic_request) (Some empty_message) =
        Some n' \<and>
      (ucast (ProtocolID n') :: jint) = 6 \<and>
      (ucast (RxStatus n') :: jint) = 0 \<and>
      (ucast (TxFlags n') :: jint) = 0x40 \<and>
      (ucast (Timestamp n') :: jlong) = 1000 \<and>
      (ucast (DataSize n') :: jint) = 3 \<and>
      (ucast (ExtraDataIndex n') :: jint) = 0 \<and>
      take (unat (DataSize n')) (Data n') = [0x02, 0x10, 0x03])"
proof -
  have h: "msg_data diagnostic_request = Some [0x02, 0x10, 0x03]"
    "length [0x02, 0x10, 0x03 :: jbyte] \<le> 4128"
    "sint (msg_dataSize diagnostic_request) = int (length [0x02, 0x10, 0x03 :: jbyte])"
    "uint (msg_timestamp diagnostic_request) < 2 ^ 32"
    by (simp_all add: diagnostic_request_def)
  have f: "msg_protocolId diagnostic_request = 6" "msg_rxStatus diagnostic_request = 0"
    "msg_txFlags diagnostic_request = 0x40" "msg_timestamp diagnostic_request = 1000"
    "msg_dataSize diagnostic_request = 3" "msg_extraDataIndex diagnostic_request = 0"
    by (simp_all add: diagnostic_request_def)
  from encoded_message_recoverable [OF h, of empty_message] h show ?thesis
    by (simp only: f simp_thms)
qed

text \<open>
  The claim as written covers every message with at most 4128 payload bytes.
  The decoder reads only the native message, so two messages with the same
  encoding cannot both come back unchanged. The native \<open>Timestamp\<close> has 32
  bits: the three-byte request with timestamp 2^32 and the one with timestamp 0
  have the same encoding, with \<open>Timestamp = 0\<close>. The native \<open>DataSize\<close> is
  the \<open>dataSize\<close> field and not the array length: with \<open>dataSize = 0\<close> the
  payloads 02 10 03 and 02 10 03 00 have the same encoding, with
  \<open>DataSize = 0\<close>.
\<close>

theorem encoded_message_collision_counterexample:
  "msg_data late_request = Some [0x02, 0x10, 0x03] \<and>
   msg_timestamp late_request = 0x100000000 \<and> msg_timestamp epoch_request = 0 \<and>
   msg_timestamp late_request \<noteq> msg_timestamp epoch_request \<and>
   convert_java_message_to_native (Some late_request) (Some empty_message) =
     convert_java_message_to_native (Some epoch_request) (Some empty_message) \<and>
   map_option Timestamp
     (convert_java_message_to_native (Some late_request) (Some empty_message)) = Some 0 \<and>
   msg_data unsized_request = Some [0x02, 0x10, 0x03] \<and>
   msg_data unsized_padded_request = Some [0x02, 0x10, 0x03, 0x00] \<and>
   convert_java_message_to_native (Some unsized_request) (Some empty_message) =
     convert_java_message_to_native (Some unsized_padded_request) (Some empty_message) \<and>
   map_option DataSize
     (convert_java_message_to_native (Some unsized_request) (Some empty_message)) = Some 0"
proof -
  have pad: "replicate 4125 (0 :: jbyte) = 0 # replicate 4124 0"
  proof -
    have "replicate (Suc 4124) (0 :: jbyte) = 0 # replicate 4124 0" by (rule replicate_Suc)
    then show ?thesis by simp
  qed
  show ?thesis
    by (simp add: convert_java_message_to_native_def memcpy_def sizeof_Data_def Let_def
        late_request_def epoch_request_def unsized_request_def unsized_padded_request_def
        diagnostic_request_def empty_message_def pad)
qed

subsection \<open>Loading the driver\<close>

lemma load_failure_restores:
  "fst (load_j2534_library w library_path) = None \<Longrightarrow>
   snd (load_j2534_library w library_path) = w"
  by (auto simp: load_j2534_library_def LoadLibraryA_def malloc_def FreeLibrary_def free_def
      GetProcAddress_def Let_def split: option.splits if_splits)

lemma load_success_iff:
  assumes "library_at w library_path = Some hLib" and "malloc_succeeds w"
  shows "fst (load_j2534_library w library_path) \<noteq> None \<longleftrightarrow>
     symbol_of w hLib ''PassThruOpen'' \<noteq> None \<and> symbol_of w hLib ''PassThruClose'' \<noteq> None \<and>
     symbol_of w hLib ''PassThruConnect'' \<noteq> None \<and>
     symbol_of w hLib ''PassThruDisconnect'' \<noteq> None"
  using assms
  by (simp add: load_j2534_library_def LoadLibraryA_def malloc_def GetProcAddress_def Let_def)

lemma load_success_result:
  assumes "library_at w library_path = Some hLib" and "malloc_succeeds w"
    and "symbol_of w hLib ''PassThruOpen'' \<noteq> None"
    and "symbol_of w hLib ''PassThruClose'' \<noteq> None"
    and "symbol_of w hLib ''PassThruConnect'' \<noteq> None"
    and "symbol_of w hLib ''PassThruDisconnect'' \<noteq> None"
  shows "load_j2534_library w library_path =
     (Some (Suc (sum_list (heap_blocks w)),
        \<lparr>hLibrary = Some hLib,
         PassThruOpen = symbol_of w hLib ''PassThruOpen'',
         PassThruClose = symbol_of w hLib ''PassThruClose'',
         PassThruConnect = symbol_of w hLib ''PassThruConnect'',
         PassThruDisconnect = symbol_of w hLib ''PassThruDisconnect'',
         PassThruReadMsgs = symbol_of w hLib ''PassThruReadMsgs'',
         PassThruWriteMsgs = symbol_of w hLib ''PassThruWriteMsgs'',
         PassThruStartMsgFilter = symbol_of w hLib ''PassThruStartMsgFilter'',
         PassThruStopMsgFilter = symbol_of w hLib ''PassThruStopMsgFilter'',
         PassThruSetProgrammingVoltage = symbol_of w hLib ''PassThruSetProgrammingVoltage'',
         PassThruReadVersion = symbol_of w hLib ''PassThruReadVersion'',
         PassThruGetLastError = symbol_of w hLib ''PassThruGetLastError'',
         PassThruIoctl = symbol_of w hLib ''PassThruIoctl''\<rparr>),
      w\<lparr>loaded_modules := hLib # loaded_modules w,
        heap_blocks := Suc (sum_list (heap_blocks w)) # heap_blocks w\<rparr>)"
  using assms
  by (simp add: load_j2534_library_def LoadLibraryA_def malloc_def GetProcAddress_def Let_def)

lemma unload_after_load:
  "unload_j2534_library (snd (load_j2534_library w library_path))
     (fst (load_j2534_library w library_path)) = w"
  by (auto simp: load_j2534_library_def unload_j2534_library_def LoadLibraryA_def malloc_def
      FreeLibrary_def free_def GetProcAddress_def Let_def split: option.splits if_splits)

lemma example_os_fields:
  "library_at example_os ''vendor.dll'' = Some 7"
  "library_at example_os ''broken.dll'' = Some 8"
  "malloc_succeeds example_os"
  by (simp_all add: example_os_def)

lemma example_os_symbols:
  "symbol_of example_os 7 ''PassThruOpen'' = Some 4096"
  "symbol_of example_os 7 ''PassThruClose'' = Some 4112"
  "symbol_of example_os 7 ''PassThruConnect'' = Some 4128"
  "symbol_of example_os 7 ''PassThruDisconnect'' = Some 4144"
  "symbol_of example_os 7 ''PassThruIoctl'' = None"
  "symbol_of example_os 8 ''PassThruDisconnect'' = None"
  by (simp_all add: example_os_def mandatory_only_exports_def no_disconnect_exports_def)

text \<open>
  Claim C6. Whenever \<open>load_j2534_library\<close> returns null, the module references
  and the heap blocks are as before the call: the image has been released and
  the structure freed. When the image is found and the structure allocated, the
  load returns null exactly when one of \<open>PassThruOpen\<close>, \<open>PassThruClose\<close>,
  \<open>PassThruConnect\<close>, \<open>PassThruDisconnect\<close> is unresolved; otherwise it
  returns the structure holding what \<open>GetProcAddress\<close> gave for each of the
  twelve names, whatever the other eight resolve to.
\<close>

theorem load_mandatory_entry_points:
  "(fst (load_j2534_library w library_path) = None \<longrightarrow>
      snd (load_j2534_library w library_path) = w) \<and>
   (library_at w library_path = Some hLib \<and> malloc_succeeds w \<longrightarrow>
      (fst (load_j2534_library w library_path) = None \<longleftrightarrow>
         symbol_of w hLib ''PassThruOpen'' = None \<or> symbol_of w hLib ''PassThruClose'' = None \<or>
         symbol_of w hLib ''PassThruConnect'' = None \<or>
         symbol_of w hLib ''PassThruDisconnect'' = None)) \<and>
   (library_at w library_path = Some hLib \<and> malloc_succeeds w \<and>
    symbol_of w hLib ''PassThruOpen'' \<noteq> None \<and> symbol_of w hLib ''PassThruClose'' \<noteq> None \<and>
    symbol_of w hLib ''PassThruConnect'' \<noteq> None \<and>
    symbol_of w hLib ''PassThruDisconnect'' \<noteq> None \<longrightarrow>
      load_j2534_library w library_path =
        (Some (Suc (sum_list (heap_blocks w)),
           \<lparr>hLibrary = Some hLib,
            PassThruOpen = symbol_of w hLib ''PassThruOpen'',
            PassThruClose = symbol_of w hLib ''PassThruClose'',
            PassThruConnect = symbol_of w hLib ''PassThruConnect'',
            PassThruDisconnect = symbol_of w hLib ''PassThruDisconnect'',
            PassThruReadMsgs = symbol_of w hLib ''PassThruReadMsgs'',
            PassThruWriteMsgs = symbol_of w hLib ''PassThruWriteMsgs'',
            PassThruStartMsgFilter = symbol_of w hLib ''PassThruStartMsgFilter'',
            PassThruStopMsgFilter = symbol_of w hLib ''PassThruStopMsgFilter'',
            PassThruSetProgrammingVoltage =
              symbol_of w hLib ''PassThruSetProgrammingVoltage'',
            PassThruReadVersion = symbol_of w hLib ''PassThruReadVersion'',
            PassThruGetLastError = symbol_of w hLib ''PassThruGetLastError'',
            PassThruIoctl = symbol_of w hLib ''PassThruIoctl''\<rparr>),
         w\<lparr>loaded_modules := hLib # loaded_modules w,
           heap_blocks := Suc (sum_list (heap_blocks w)) # heap_blocks w\<rparr>))"
proof (intro conjI impI)
  assume "fst (load_j2534_library w library_path) = None"
  then show "snd (load_j2534_library w library_path) = w"
    by (rule load_failure_restores)
next
  assume "library_at w library_path = Some hLib \<and> malloc_succeeds w"
  then show "fst (load_j2534_library w library_path) = None \<longleftrightarrow>
         symbol_of w hLib ''PassThruOpen'' = None \<or> symbol_of w hLib ''PassThruClose'' = None \<or>
         symbol_of w hLib ''PassThruConnect'' = None \<or>
         symbol_of w hLib ''PassThruDisconnect'' = None"
    using load_success_iff [of w library_path hLib] by blast
next
  assume "library_at w library_path = Some hLib \<and> malloc_succeeds w \<and>
    symbol_of w hLib ''PassThruOpen'' \<noteq> None \<and> symbol_of w hLib ''PassThruClose'' \<noteq> None \<and>
    symbol_of w hLib ''PassThruConnect'' \<noteq> None \<and>
    symbol_of w hLib ''PassThruDisconnect'' \<noteq> None"
  then show "load_j2534_library w library_path =
        (Some (Suc (sum_list (heap_blocks w)),
           \<lparr>hLibrary = Some hLib,
            PassThruOpen = symbol_of w hLib ''PassThruOpen'',
            PassThruClose = symbol_of w hLib ''PassThruClose'',
            PassThruConnect = symbol_of w hLib ''PassThruConnect'',
            PassThruDisconnect = symbol_of w hLib ''PassThruDisconnect'',
            PassThruReadMsgs = symbol_of w hLib ''PassThruReadMsgs'',
            PassThruWriteMsgs = symbol_of w hLib ''PassThruWriteMsgs'',
            PassThruStartMsgFilter = symbol_of w hLib ''PassThruStartMsgFilter'',
            PassThruStopMsgFilter = symbol_of w hLib ''PassThruStopMsgFilter'',
            PassThruSetProgrammingVoltage =
              symbol_of w hLib ''PassThruSetProgrammingVoltage'',
            PassThruReadVersion = symbol_of w hLib ''PassThruReadVersion'',
            PassThruGetLastError = symbol_of w hLib ''PassThruGetLastError'',
            PassThruIoctl = symbol_of w hLib ''PassThruIoctl''\<rparr>),
         w\<lparr>loaded_modules := hLib # loaded_modules w,
           heap_blocks := Suc (sum_list (heap_blocks w)) # heap_blocks w\<rparr>)"
    by (intro load_success_result) simp_all
qed

theorem load_mandatory_entry_points_witness:
  "library_at example_os ''vendor.dll'' = Some 7 \<and> malloc_succeeds example_os \<and>
   symbol_of example_os 7 ''PassThruIoctl'' = None \<and>
   map_option fst (fst (load_j2534_library example_os ''vendor.dll'')) = Some 49 \<and>
   loaded_modules (snd (load_j2534_library example_os ''vendor.dll'')) = [7, 3] \<and>
   library_at example_os ''broken.dll'' = Some 8 \<and>
   symbol_of example_os 8 ''PassThruDisconnect'' = None \<and>
   fst (load_j2534_library example_os ''broken.dll'') = None \<and>
   snd (load_j2534_library example_os ''broken.dll'') = example_os"
  using load_mandatory_entry_points [of example_os "''vendor.dll''" 7]
        load_mandatory_entry_points [of example_os "''broken.dll''" 8]
  by (simp add: example_os_fields example_os_symbols) (simp add: example_os_def)

subsection \<open>Payload truncation\<close>

text \<open>
  Claim C7. For a payload of more than 4128 bytes the native \<open>Data\<close> buffer
  holds exactly the first 4128 bytes after encoding; for a payload of at most
  4128 bytes it holds the whole payload, followed by the bytes the buffer had
  before at those positions. The encoder reports nothing in either case.
\<close>

theorem payload_truncation:
  assumes "msg_data m = Some payload"
  shows "(4128 < length payload \<and> length (Data native) = 4128 \<longrightarrow>
           map_option Data (convert_java_message_to_native (Some m) (Some native)) =
             Some (take 4128 payload)) \<and>
         (length payload \<le> 4128 \<longrightarrow>
           map_option Data (convert_java_message_to_native (Some m) (Some native)) =
             Some (payload @ drop (length payload) (Data native)))"
  using assms
  by (simp add: convert_java_message_to_native_def memcpy_def sizeof_Data_def Let_def)

theorem payload_truncation_witness:
  "msg_data oversized_request = Some (replicate 4128 0x55 @ [0x01, 0x02]) \<and>
   length (Data empty_message) = 4128 \<and>
   map_option Data (convert_java_message_to_native (Some oversized_request) (Some empty_message))
     = Some (replicate 4128 0x55) \<and>
   msg_data diagnostic_request = Some [0x02, 0x10, 0x03] \<and>
   map_option Data (convert_java_message_to_native (Some diagnostic_request) (Some empty_message))
     = Some ([0x02, 0x10, 0x03] @ replicate 4125 0)"
proof -
  have a: "msg_data oversized_request = Some (replicate 4128 0x55 @ [0x01, 0x02])"
    by (simp add: oversized_request_def)
  have b: "msg_data diagnostic_request = Some [0x02, 0x10, 0x03]"
    by (simp add: diagnostic_request_def)
  have c: "length (Data empty_message) = 4128" by (simp add: empty_message_def)
  have d: "drop (length [0x02, 0x10, 0x03 :: jbyte]) (Data empty_message) = replicate 4125 0"
    by (simp add: empty_message_def)
  from payload_truncation [OF a, of empty_message] payload_truncation [OF b, of empty_message]
    a b c d
  show ?thesis by simp
qed

end
